theory Spec2Isabelle
  imports Main "HOL-Library.Char_ord" "HOL-Library.List_Lexorder" "HOL-Library.Multiset"
begin

section \<open>The genre controller of the library catalogue\<close>

text \<open>
  The controller (controllers/genreController.js) exports eight request handlers over
  three collections of a document store: Genre, Book and BookInstance. Each handler is
  modelled as a function from the request and the store to the response it sends and
  the store it leaves.

  What the controller only consumes is modelled as follows.
  \<^item> Object ids are natural numbers; the handlers only compare them. A request whose id
    text is not a well-formed object id is outside the model.
  \<^item> Strings are lists of 8-bit characters.
  \<^item> The Genre model (models/genre.js) is not part of the controller: its \<open>url\<close>
    virtual and its schema validators are parameters, fields of the environment.
  \<^item> A request meets the store either reachable or failing: a failing store rejects
    every call with the same error and changes nothing.
\<close>

subsection \<open>Documents and the store\<close>

type_synonym oid = nat

text \<open>Modelled from the spec: the Genre schema (models/genre.js): an id and a name.\<close>

record genre =
  genre_id :: oid
  genre_name :: string

text \<open>
  Modelled from the spec: the Book schema (models/book.js): the attributes the
  controller reads, with \<open>genre\<close> a collection of Genre ids.
\<close>

record book =
  book_id :: oid
  book_title :: string
  book_summary :: string
  book_genre :: "oid list"

text \<open>Modelled from the spec: the BookInstance schema (models/bookinstance.js).\<close>

record bookinstance =
  bookinstance_id :: oid
  bookinstance_book :: oid

record store =
  genres :: "genre list"
  books :: "book list"
  bookinstances :: "bookinstance list"

text \<open>A Book document projected to \<open>"title summary"\<close> (the id always comes along).\<close>

record book_projection =
  bp_id :: oid
  bp_title :: string
  bp_summary :: string

subsection \<open>Errors, requests, responses\<close>

datatype js_error =
    Error string "nat option"  \<comment> \<open>\<open>new Error(message)\<close>, and the \<open>status\<close> set on it, if any\<close>
  | TypeError_null string      \<comment> \<open>reading the named property of \<open>null\<close>\<close>
  | ValidationError string     \<comment> \<open>the schema validators reject the named path\<close>
  | StoreError string          \<comment> \<open>any other failure of the store, by its code or message\<close>

fun err_status :: "js_error \<Rightarrow> nat option" where
  "err_status (Error m st) = st"
| "err_status (TypeError_null p) = None"
| "err_status (ValidationError p) = None"
| "err_status (StoreError m) = None"

record validation_error =
  ve_path :: string
  ve_msg :: string

record request =
  params_id :: oid                              \<comment> \<open>\<open>req.params.id\<close>\<close>
  body_name :: string                           \<comment> \<open>\<open>req.body.name\<close>\<close>
  body_genreid :: oid                           \<comment> \<open>\<open>req.body.genreid\<close>\<close>
  validation_errors :: "validation_error list"  \<comment> \<open>what \<open>validationResult(req)\<close> holds\<close>

datatype view =
    Genre_list_view string "genre list"
      \<comment> \<open>template \<open>genre_list\<close>: title, genre_list\<close>
  | Genre_detail_view string genre "book_projection list"
      \<comment> \<open>template \<open>genre_detail\<close>: title, genre, genre_books\<close>
  | Genre_form_view string "genre option" "validation_error list option"
      \<comment> \<open>template \<open>genre_form\<close>: title, genre, errors\<close>
  | Genre_delete_view string genre "book list"
      \<comment> \<open>template \<open>genre_delete\<close>: title, genre, genreBooks\<close>

datatype response =
    Render view       \<comment> \<open>\<open>res.render\<close>\<close>
  | Redirect string   \<comment> \<open>\<open>res.redirect\<close>\<close>
  | Next js_error     \<comment> \<open>\<open>next(err)\<close>: the error goes to the error-handling collaborator\<close>

text \<open>
  The status the handler itself answers with: no handler sets one, so a rendered view
  goes out with 200 and a redirect with 302; after \<open>next(err)\<close> the collaborator
  decides.
\<close>

fun status_code :: "response \<Rightarrow> nat option" where
  "status_code (Render v) = Some 200"
| "status_code (Redirect u) = Some 302"
| "status_code (Next e) = None"

record env =
  genre_url :: "oid \<Rightarrow> string"         \<comment> \<open>the \<open>url\<close> virtual of the Genre model\<close>
  genre_name_valid :: "string \<Rightarrow> bool"  \<comment> \<open>the validators of the Genre schema on \<open>name\<close>\<close>
  fault :: "js_error option"            \<comment> \<open>the error a failing store rejects with\<close>
  new_oid :: oid                        \<comment> \<open>the id \<open>new Genre(...)\<close> generates\<close>

subsection \<open>Store calls\<close>

text \<open>A call resolves to \<open>Inr\<close> its result, or rejects with \<open>Inl\<close> the error.\<close>

definition query :: "env \<Rightarrow> 'a \<Rightarrow> js_error + 'a" where
  "query E v = (case fault E of Some e \<Rightarrow> Inl e | None \<Rightarrow> Inr v)"

fun delete_first :: "('a \<Rightarrow> bool) \<Rightarrow> 'a list \<Rightarrow> 'a list" where
  "delete_first P [] = []"
| "delete_first P (x # xs) = (if P x then xs else x # delete_first P xs)"

fun update_first :: "('a \<Rightarrow> bool) \<Rightarrow> ('a \<Rightarrow> 'a) \<Rightarrow> 'a list \<Rightarrow> 'a list" where
  "update_first P f [] = []"
| "update_first P f (x # xs) = (if P x then f x # xs else x # update_first P f xs)"

text \<open>\<open>Genre.find().sort({ name: 'asc' }).exec()\<close>\<close>

definition Genre_find_sort_name :: "env \<Rightarrow> store \<Rightarrow> js_error + genre list" where
  "Genre_find_sort_name E s = query E (sort_key genre_name (genres s))"

text \<open>\<open>Genre.findById(id)\<close>: the document with that id, or \<open>null\<close>.\<close>

definition Genre_findById :: "env \<Rightarrow> store \<Rightarrow> oid \<Rightarrow> js_error + genre option" where
  "Genre_findById E s i = query E (find (\<lambda>g. genre_id g = i) (genres s))"

text \<open>\<open>Genre.findOne({ name: n })\<close>\<close>

definition Genre_findOne_name :: "env \<Rightarrow> store \<Rightarrow> string \<Rightarrow> js_error + genre option" where
  "Genre_findOne_name E s n = query E (find (\<lambda>g. genre_name g = n) (genres s))"

text \<open>
  \<open>Book.find({ genre: i })\<close>: \<open>genre\<close> is an array, which matches when it has the
  element.
\<close>

definition Book_find_genre :: "env \<Rightarrow> store \<Rightarrow> oid \<Rightarrow> js_error + book list" where
  "Book_find_genre E s i = query E (filter (\<lambda>b. i \<in> set (book_genre b)) (books s))"

definition project_title_summary :: "book \<Rightarrow> book_projection" where
  "project_title_summary b =
     \<lparr>bp_id = book_id b, bp_title = book_title b, bp_summary = book_summary b\<rparr>"

text \<open>
  \<open>genre.save()\<close> of a new document: the schema validators run, the store refuses an
  id it already holds, and the document is inserted.
\<close>

definition Genre_save :: "env \<Rightarrow> genre \<Rightarrow> store \<Rightarrow> (js_error + unit) \<times> store" where
  "Genre_save E g s =
     (case fault E of
        Some e \<Rightarrow> (Inl e, s)
      | None \<Rightarrow>
          if \<not> genre_name_valid E (genre_name g) then (Inl (ValidationError ''name''), s)
          else if genre_id g \<in> set (map genre_id (genres s))
          then (Inl (StoreError ''E11000 duplicate key''), s)
          else (Inr (), s\<lparr>genres := genres s @ [g]\<rparr>))"

text \<open>\<open>Genre.findByIdAndDelete(i)\<close>: deletes the document with that id, if any.\<close>

definition Genre_findByIdAndDelete ::
  "env \<Rightarrow> oid \<Rightarrow> store \<Rightarrow> (js_error + genre option) \<times> store" where
  "Genre_findByIdAndDelete E i s =
     (case fault E of
        Some e \<Rightarrow> (Inl e, s)
      | None \<Rightarrow>
          (Inr (find (\<lambda>g. genre_id g = i) (genres s)),
           s\<lparr>genres := delete_first (\<lambda>g. genre_id g = i) (genres s)\<rparr>))"

text \<open>\<open>Book.deleteMany({ genre: { $in: ids } })\<close>\<close>

definition Book_deleteMany_genre_in ::
  "env \<Rightarrow> oid list \<Rightarrow> store \<Rightarrow> (js_error + unit) \<times> store" where
  "Book_deleteMany_genre_in E ids s =
     (case fault E of
        Some e \<Rightarrow> (Inl e, s)
      | None \<Rightarrow>
          (Inr (),
           s\<lparr>books := filter (\<lambda>b. \<not> list_ex (\<lambda>i. i \<in> set (book_genre b)) ids) (books s)\<rparr>))"

text \<open>\<open>Bookinstance.deleteMany({ book: { $in: ids } })\<close>\<close>

definition Bookinstance_deleteMany_book_in ::
  "env \<Rightarrow> oid list \<Rightarrow> store \<Rightarrow> (js_error + unit) \<times> store" where
  "Bookinstance_deleteMany_book_in E ids s =
     (case fault E of
        Some e \<Rightarrow> (Inl e, s)
      | None \<Rightarrow>
          (Inr (),
           s\<lparr>bookinstances := filter (\<lambda>c. bookinstance_book c \<notin> set ids) (bookinstances s)\<rparr>))"

text \<open>
  \<open>Genre.findOneAndUpdate({ _id: i }, doc, { new: true, runValidators: true })\<close>: the
  schema validators run on the update first; then the fields of \<open>doc\<close> are set on the
  document with id \<open>i\<close>, and the updated document is the result, or \<open>null\<close> when no
  document has that id (no upsert is asked for).
\<close>

definition Genre_findOneAndUpdate ::
  "env \<Rightarrow> oid \<Rightarrow> genre \<Rightarrow> store \<Rightarrow> (js_error + genre option) \<times> store" where
  "Genre_findOneAndUpdate E i doc s =
     (case fault E of
        Some e \<Rightarrow> (Inl e, s)
      | None \<Rightarrow>
          if \<not> genre_name_valid E (genre_name doc) then (Inl (ValidationError ''name''), s)
          else
            (let set_fields = (\<lambda>g. g\<lparr>genre_id := genre_id doc, genre_name := genre_name doc\<rparr>)
             in (Inr (map_option set_fields (find (\<lambda>g. genre_id g = i) (genres s))),
                 s\<lparr>genres := update_first (\<lambda>g. genre_id g = i) set_fields (genres s)\<rparr>)))"

subsection \<open>The validation chain of the create form\<close>

text \<open>
  \<open>body("name", msg).trim().isLength({ min: 3 }).escape()\<close>: the sanitizers rewrite
  \<open>req.body.name\<close> whether or not the value is valid; the validator sees the trimmed
  value and records \<open>msg\<close> for the field when it is too short.
  Of a recorded error the model keeps the field and the message. Whitespace is tab,
  line feed, vertical tab, form feed, carriage return, space and no-break space.
\<close>

definition is_space :: "char \<Rightarrow> bool" where
  "is_space c \<longleftrightarrow>
     c \<in> set [CHR 0x09, CHR 0x0A, CHR 0x0B, CHR 0x0C, CHR 0x0D, CHR 0x20, CHR 0xA0]"

definition trim :: "string \<Rightarrow> string" where
  "trim v = rev (dropWhile is_space (rev (dropWhile is_space v)))"

definition isLength_min :: "nat \<Rightarrow> string \<Rightarrow> bool" where
  "isLength_min n v \<longleftrightarrow> n \<le> length v"

definition escape_char :: "char \<Rightarrow> string" where
  "escape_char c =
     (if c = CHR 0x26 then ''&amp;''
      else if c = CHR 0x22 then ''&quot;''
      else if c = CHR 0x27 then ''&#x27;''
      else if c = CHR 0x3C then ''&lt;''
      else if c = CHR 0x3E then ''&gt;''
      else if c = CHR 0x2F then ''&#x2F;''
      else if c = CHR 0x5C then ''&#x5C;''
      else if c = CHR 0x60 then ''&#96;''
      else [c])"

definition escape :: "string \<Rightarrow> string" where
  "escape v = concat (map escape_char v)"

definition name_chain :: "request \<Rightarrow> request" where
  "name_chain req =
     (let v = trim (body_name req);
          errs = (if isLength_min 3 v then []
                  else [\<lparr>ve_path = ''name'',
                         ve_msg = ''Genre name must contain at least 3 characters''\<rparr>])
      in req\<lparr>body_name := escape v, validation_errors := validation_errors req @ errs\<rparr>)"

subsection \<open>The handlers\<close>

text \<open>
  The body of an asynchronous handler ends with a response, or throws; either way it
  leaves a store. \<open>asyncHandler\<close> passes what is thrown to \<open>next\<close>.
\<close>

type_synonym outcome = "(js_error + response) \<times> store"

definition asyncHandler :: "outcome \<Rightarrow> response \<times> store" where
  "asyncHandler r = (case r of (Inl err, s) \<Rightarrow> (Next err, s) | (Inr resp, s) \<Rightarrow> (resp, s))"

text \<open>\<open>await\<close> of a read, and of a call that writes.\<close>

definition await :: "js_error + 'a \<Rightarrow> store \<Rightarrow> ('a \<Rightarrow> outcome) \<Rightarrow> outcome" where
  "await r s k = (case r of Inl err \<Rightarrow> (Inl err, s) | Inr v \<Rightarrow> k v)"

definition await_write :: "(js_error + 'a) \<times> store \<Rightarrow> ('a \<Rightarrow> store \<Rightarrow> outcome) \<Rightarrow> outcome" where
  "await_write r k = (case r of (Inl err, s) \<Rightarrow> (Inl err, s) | (Inr v, s) \<Rightarrow> k v s)"

text \<open>
  \<open>Promise.all\<close> of two reads, and of three calls that write: every call runs, and the
  first rejection, if any, is the rejection of the whole.
\<close>

definition all2 :: "js_error + 'a \<Rightarrow> js_error + 'b \<Rightarrow> js_error + 'a \<times> 'b" where
  "all2 a b =
     (case a of Inl err \<Rightarrow> Inl err
      | Inr x \<Rightarrow> (case b of Inl err \<Rightarrow> Inl err | Inr y \<Rightarrow> Inr (x, y)))"

definition all3_write ::
  "(store \<Rightarrow> (js_error + 'a) \<times> store) \<Rightarrow> (store \<Rightarrow> (js_error + 'b) \<times> store) \<Rightarrow>
   (store \<Rightarrow> (js_error + 'c) \<times> store) \<Rightarrow> store \<Rightarrow> (js_error + unit) \<times> store" where
  "all3_write f g h s =
     (let (a, s1) = f s; (b, s2) = g s1; (c, s3) = h s2
      in (case a of Inl err \<Rightarrow> Inl err
          | Inr _ \<Rightarrow> (case b of Inl err \<Rightarrow> Inl err
                     | Inr _ \<Rightarrow> (case c of Inl err \<Rightarrow> Inl err | Inr _ \<Rightarrow> Inr ())),
          s3))"

definition genre_list :: "env \<Rightarrow> request \<Rightarrow> store \<Rightarrow> response \<times> store" where
  "genre_list E req s =
     (case Genre_find_sort_name E s of
        Inr list_genres \<Rightarrow> (Render (Genre_list_view ''Genre List'' list_genres), s)
      | Inl err \<Rightarrow> (Next err, s))"

definition genre_detail :: "env \<Rightarrow> request \<Rightarrow> store \<Rightarrow> response \<times> store" where
  "genre_detail E req s = asyncHandler
     (await (all2 (Genre_findById E s (params_id req))
                  (map_sum id (map project_title_summary) (Book_find_genre E s (params_id req)))) s
        (\<lambda>(genre, booksInGenre).
           case genre of
             None \<Rightarrow> (Inr (Next (Error ''Genre not found'' (Some 404))), s)
           | Some g \<Rightarrow> (Inr (Render (Genre_detail_view ''Genre Detail'' g booksInGenre)), s)))"

definition genre_create_get :: "env \<Rightarrow> request \<Rightarrow> store \<Rightarrow> response \<times> store" where
  "genre_create_get E req s = (Render (Genre_form_view ''Create Genre'' None None), s)"

definition genre_create_post_handler :: "env \<Rightarrow> request \<Rightarrow> store \<Rightarrow> response \<times> store" where
  "genre_create_post_handler E req s = asyncHandler
     (let errors = validation_errors req;
          genre = \<lparr>genre_id = new_oid E, genre_name = body_name req\<rparr>
      in if errors \<noteq> []
         then (Inr (Render (Genre_form_view ''Create Genre'' (Some genre) (Some errors))), s)
         else await (Genre_findOne_name E s (body_name req)) s
           (\<lambda>genreExists.
              case genreExists of
                Some g \<Rightarrow> (Inr (Redirect (genre_url E (genre_id g))), s)
              | None \<Rightarrow> await_write (Genre_save E genre s)
                  (\<lambda>_ s'. (Inr (Redirect (genre_url E (genre_id genre))), s'))))"

text \<open>The export is the array of the chain and the handler, run in that order.\<close>

definition genre_create_post :: "env \<Rightarrow> request \<Rightarrow> store \<Rightarrow> response \<times> store" where
  "genre_create_post E req s = genre_create_post_handler E (name_chain req) s"

definition genre_delete_get :: "env \<Rightarrow> request \<Rightarrow> store \<Rightarrow> response \<times> store" where
  "genre_delete_get E req s = asyncHandler
     (await (all2 (Genre_findById E s (params_id req))
                  (Book_find_genre E s (params_id req))) s
        (\<lambda>(genre, genreBooks).
           case genre of
             None \<Rightarrow> (Inr (Next (Error ''Genre not found'' (Some 404))), s)
           | Some g \<Rightarrow> (Inr (Render (Genre_delete_view ''Delete Genre'' g genreBooks)), s)))"

definition genre_delete_post :: "env \<Rightarrow> request \<Rightarrow> store \<Rightarrow> response \<times> store" where
  "genre_delete_post E req s = asyncHandler
     (let genreId = body_genreid req
      in await (Book_find_genre E s genreId) s
        (\<lambda>associatedBooks.
           let bookIds = map book_id associatedBooks
           in await_write
                (all3_write (Genre_findByIdAndDelete E genreId)
                            (Book_deleteMany_genre_in E [genreId])
                            (Bookinstance_deleteMany_book_in E bookIds) s)
                (\<lambda>_ s'. (Inr (Redirect ''/catalog/genres''), s'))))"

definition genre_update_get :: "env \<Rightarrow> request \<Rightarrow> store \<Rightarrow> response \<times> store" where
  "genre_update_get E req s = asyncHandler
     (await (Genre_findById E s (params_id req)) s
        (\<lambda>genre.
           case genre of
             None \<Rightarrow> (Inr (Next (Error ''Genre not found'' (Some 404))), s)
           | Some g \<Rightarrow> (Inr (Render (Genre_form_view ''Update Genre'' (Some g) None)), s)))"

text \<open>
  In the update handler the store call and the redirect stand in a \<open>try\<close> whose
  \<open>catch\<close> passes the error to \<open>next\<close>; reading \<open>url\<close> of a \<open>null\<close> result throws
  there.
\<close>

definition genre_update_post :: "env \<Rightarrow> request \<Rightarrow> store \<Rightarrow> response \<times> store" where
  "genre_update_post E req s = asyncHandler
     (let genre = \<lparr>genre_id = params_id req, genre_name = body_name req\<rparr>;
          errors = validation_errors req
      in if errors \<noteq> []
         then (Inr (Render (Genre_form_view ''Update Genre'' (Some genre) (Some errors))), s)
         else
           (case Genre_findOneAndUpdate E (params_id req) genre s of
              (Inl err, s') \<Rightarrow> (Inr (Next err), s')
            | (Inr None, s') \<Rightarrow> (Inr (Next (TypeError_null ''url'')), s')
            | (Inr (Some updatedGenre), s') \<Rightarrow>
                (Inr (Redirect (genre_url E (genre_id updatedGenre))), s')))"

subsection \<open>A catalogue to run the handlers on\<close>

fun decimal :: "nat \<Rightarrow> string" where
  "decimal n =
     (if n < 10 then [''0123456789'' ! n]
      else decimal (n div 10) @ [''0123456789'' ! (n mod 10)])"

declare decimal.simps [simp del]

text \<open>
  An environment with a reachable store, a \<open>url\<close> virtual that appends the id to the
  path of the detail page, and a schema that asks for three characters.
\<close>

definition example_env :: env where
  "example_env =
     \<lparr>genre_url = (\<lambda>i. ''/catalog/genre/'' @ decimal i),
      genre_name_valid = (\<lambda>n. 3 \<le> length n),
      fault = None,
      new_oid = 9\<rparr>"

definition failing_env :: env where
  "failing_env = example_env\<lparr>fault := Some (StoreError ''ECONNREFUSED'')\<rparr>"

definition example_store :: store where
  "example_store =
     \<lparr>genres =
        [\<lparr>genre_id = 1, genre_name = ''Science Fiction''\<rparr>,
         \<lparr>genre_id = 2, genre_name = ''Fantasy''\<rparr>,
         \<lparr>genre_id = 3, genre_name = ''Poetry''\<rparr>],
      books =
        [\<lparr>book_id = 10, book_title = ''Dune'', book_summary = ''Arrakis'',
          book_genre = [1]\<rparr>,
         \<lparr>book_id = 11, book_title = ''The Hobbit'', book_summary = ''There and back'',
          book_genre = [2]\<rparr>,
         \<lparr>book_id = 12, book_title = ''Hyperion'', book_summary = ''Pilgrims'',
          book_genre = [1, 3]\<rparr>],
      bookinstances =
        [\<lparr>bookinstance_id = 20, bookinstance_book = 10\<rparr>,
         \<lparr>bookinstance_id = 21, bookinstance_book = 11\<rparr>,
         \<lparr>bookinstance_id = 22, bookinstance_book = 12\<rparr>,
         \<lparr>bookinstance_id = 23, bookinstance_book = 10\<rparr>]\<rparr>"

text \<open>The catalogue after genre 2 was renamed to \<open>&lt;\<close> through the update form.\<close>

definition escaped_store :: store where
  "escaped_store =
     example_store\<lparr>genres :=
       [\<lparr>genre_id = 1, genre_name = ''Science Fiction''\<rparr>,
        \<lparr>genre_id = 2, genre_name = ''&lt;''\<rparr>,
        \<lparr>genre_id = 3, genre_name = ''Poetry''\<rparr>]\<rparr>"

text \<open>
  The catalogue with genre 1 gone and its books and their copies still there, as an
  interrupted cascade leaves it.
\<close>

definition orphan_store :: store where
  "orphan_store =
     example_store\<lparr>genres :=
       [\<lparr>genre_id = 2, genre_name = ''Fantasy''\<rparr>,
        \<lparr>genre_id = 3, genre_name = ''Poetry''\<rparr>]\<rparr>"

definition example_request :: "oid \<Rightarrow> string \<Rightarrow> oid \<Rightarrow> request" where
  "example_request i n g =
     \<lparr>params_id = i, body_name = n, body_genreid = g, validation_errors = []\<rparr>"

definition rejected_request :: request where
  "rejected_request =
     \<lparr>params_id = 2, body_name = ''Ep'', body_genreid = 0,
      validation_errors = [\<lparr>ve_path = ''name'', ve_msg = ''Name must be specified''\<rparr>]\<rparr>"

subsection \<open>Lists and records\<close>

lemma delete_first_distinct:
  "distinct (map f xs) \<Longrightarrow> delete_first (\<lambda>x. f x = k) xs = filter (\<lambda>x. f x \<noteq> k) xs"
proof (induction xs)
  case Nil
  show ?case by simp
next
  case (Cons x xs)
  show ?case
  proof (cases "f x = k")
    case True
    with Cons.prems have "\<forall>y\<in>set xs. f y \<noteq> k"
      by (metis distinct.simps(2) image_eqI list.simps(9) set_map)
    then have "filter (\<lambda>x. f x \<noteq> k) xs = xs" by (simp add: filter_id_conv)
    with True show ?thesis by simp
  next
    case False
    with Cons show ?thesis by simp
  qed
qed

lemma delete_first_absent: "\<forall>x\<in>set xs. \<not> P x \<Longrightarrow> delete_first P xs = xs"
  by (induction xs) auto

lemma update_first_absent: "\<forall>x\<in>set xs. \<not> P x \<Longrightarrow> update_first P f xs = xs"
  by (induction xs) auto

lemma update_first_frame:
  "list_all2 (\<lambda>x y. (\<not> P x \<longrightarrow> y = x) \<and> (y = x \<or> y = f x)) xs (update_first P f xs)"
  by (induction xs) (auto simp: list.rel_refl)

lemma store_update_all:
  "s\<lparr>genres := a, books := b, bookinstances := c\<rparr> = \<lparr>genres = a, books = b, bookinstances = c\<rparr>"
  by (cases s) simp

lemmas handler_defs =
  asyncHandler_def await_def await_write_def all2_def all3_write_def Let_def query_def

subsection \<open>The genre ids stay distinct\<close>

text \<open>
  The store keeps the ids of a collection distinct. The three handlers that write keep
  it so for the genres: the create form through the refusal of a held id, the update
  form because it sets the id it searched for, the delete form because it only
  removes.
\<close>

lemma set_delete_first: "set (delete_first P xs) \<subseteq> set xs"
  by (induction xs) auto

lemma distinct_delete_first:
  "distinct (map f xs) \<Longrightarrow> distinct (map f (delete_first P xs))"
proof (induction xs)
  case Nil
  show ?case by simp
next
  case (Cons x xs)
  with set_delete_first [of P xs] show ?case by auto
qed

lemma map_update_first_same_key:
  "(\<And>x. P x \<Longrightarrow> k (f x) = k x) \<Longrightarrow> map k (update_first P f xs) = map k xs"
  by (induction xs) auto

lemma genre_ids_stay_distinct:
  assumes "distinct (map genre_id (genres s))"
  shows "distinct (map genre_id (genres (snd (genre_create_post E req s))))"
    and "distinct (map genre_id (genres (snd (genre_update_post E req s))))"
    and "distinct (map genre_id (genres (snd (genre_delete_post E req s))))"
proof -
  show "distinct (map genre_id (genres (snd (genre_create_post E req s))))"
    using assms
    by (simp add: genre_create_post_def genre_create_post_handler_def Genre_findOne_name_def
        Genre_save_def handler_defs split: option.split)
  have "map genre_id (update_first (\<lambda>g. genre_id g = params_id req)
          (\<lambda>g. g\<lparr>genre_id := params_id req, genre_name := body_name req\<rparr>) (genres s))
        = map genre_id (genres s)"
    by (rule map_update_first_same_key) simp
  then show "distinct (map genre_id (genres (snd (genre_update_post E req s))))"
    using assms
    by (simp add: genre_update_post_def Genre_findOneAndUpdate_def asyncHandler_def Let_def
        split: option.split)
  show "distinct (map genre_id (genres (snd (genre_delete_post E req s))))"
    using assms distinct_delete_first [of genre_id "genres s" "\<lambda>g. genre_id g = body_genreid req"]
    by (simp add: genre_delete_post_def Book_find_genre_def Genre_findByIdAndDelete_def
        Book_deleteMany_genre_in_def Bookinstance_deleteMany_book_in_def handler_defs
        split: option.split)
qed

section \<open>The delete form\<close>

text \<open>
  Claim C1. Deleting genre \<open>G\<close> through the delete form (POST), on a reachable store
  whose genres have distinct ids, redirects to the genre list and leaves exactly: the
  genres other than \<open>G\<close>, unchanged and in their order; the books that do not reference
  \<open>G\<close>; and the book instances that reference none of the books that referenced \<open>G\<close>.
  So \<open>G\<close>, every book referencing it and every instance of such a book are removed.
\<close>

theorem genre_delete_post_cascade:
  assumes "fault E = None" and "distinct (map genre_id (genres s))"
  shows "genre_delete_post E req s =
     (Redirect ''/catalog/genres'',
      \<lparr>genres = filter (\<lambda>g. genre_id g \<noteq> body_genreid req) (genres s),
       books = filter (\<lambda>b. body_genreid req \<notin> set (book_genre b)) (books s),
       bookinstances =
         filter (\<lambda>c. \<forall>b\<in>set (books s). body_genreid req \<in> set (book_genre b)
                          \<longrightarrow> bookinstance_book c \<noteq> book_id b) (bookinstances s)\<rparr>)"
proof -
  have g: "delete_first (\<lambda>g. genre_id g = body_genreid req) (genres s)
             = filter (\<lambda>g. genre_id g \<noteq> body_genreid req) (genres s)"
    using assms(2) by (rule delete_first_distinct)
  have c: "filter (\<lambda>c. bookinstance_book c
               \<notin> set (map book_id (filter (\<lambda>b. body_genreid req \<in> set (book_genre b)) (books s))))
             (bookinstances s)
           = filter (\<lambda>c. \<forall>b\<in>set (books s). body_genreid req \<in> set (book_genre b)
                          \<longrightarrow> bookinstance_book c \<noteq> book_id b) (bookinstances s)"
    by (rule filter_cong) auto
  show ?thesis
    using assms(1) g c
    by (simp add: genre_delete_post_def handler_defs store_update_all Book_find_genre_def
        Genre_findByIdAndDelete_def Book_deleteMany_genre_in_def
        Bookinstance_deleteMany_book_in_def)
qed

text \<open>
  Deleting Science Fiction takes Dune and Hyperion (which is Poetry too) with it, and
  the three copies of the two.
\<close>

theorem genre_delete_post_cascade_witness:
  "fault example_env = None \<and> distinct (map genre_id (genres example_store)) \<and>
   genre_delete_post example_env (example_request 0 [] 1) example_store =
     (Redirect ''/catalog/genres'',
      \<lparr>genres = [\<lparr>genre_id = 2, genre_name = ''Fantasy''\<rparr>,
                 \<lparr>genre_id = 3, genre_name = ''Poetry''\<rparr>],
       books = [\<lparr>book_id = 11, book_title = ''The Hobbit'',
                 book_summary = ''There and back'', book_genre = [2]\<rparr>],
       bookinstances = [\<lparr>bookinstance_id = 21, bookinstance_book = 11\<rparr>]\<rparr>)"
proof -
  have f: "fault example_env = None" by (simp add: example_env_def)
  have d: "distinct (map genre_id (genres example_store))" by (simp add: example_store_def)
  show ?thesis
    using f d genre_delete_post_cascade [OF f d, of "example_request 0 [] 1"]
    by (simp add: example_store_def example_request_def)
qed

text \<open>
  Claim C6, as the handler has it. Deleting through the delete form a genre id that no
  stored genre has and no stored book references, on a reachable store, changes no
  record of any collection and redirects to the genre list; the handler looks for no
  genre first and raises nothing.
\<close>

theorem genre_delete_post_absent:
  assumes "fault E = None"
    and "\<forall>g\<in>set (genres s). genre_id g \<noteq> body_genreid req"
    and "\<forall>b\<in>set (books s). body_genreid req \<notin> set (book_genre b)"
  shows "genre_delete_post E req s = (Redirect ''/catalog/genres'', s)"
proof -
  have found: "Book_find_genre E s (body_genreid req) = Inr []"
    using assms(1,3) by (simp add: Book_find_genre_def query_def filter_empty_conv)
  have d1: "Genre_findByIdAndDelete E (body_genreid req) s = (Inr None, s)"
    using assms(1,2)
    by (simp add: Genre_findByIdAndDelete_def delete_first_absent find_None_iff)
  have "filter (\<lambda>b. body_genreid req \<notin> set (book_genre b)) (books s) = books s"
    using assms(3) by (simp add: filter_id_conv)
  then have d2: "Book_deleteMany_genre_in E [body_genreid req] s = (Inr (), s)"
    using assms(1) by (simp add: Book_deleteMany_genre_in_def)
  have d3: "Bookinstance_deleteMany_book_in E [] s = (Inr (), s)"
    using assms(1) by (simp add: Bookinstance_deleteMany_book_in_def)
  show ?thesis
    by (simp add: genre_delete_post_def asyncHandler_def await_def await_write_def
        all3_write_def found d1 d2 d3)
qed

theorem genre_delete_post_absent_witness:
  "fault example_env = None \<and>
   list_all (\<lambda>g. genre_id g \<noteq> 7) (genres example_store) \<and>
   list_all (\<lambda>b. 7 \<notin> set (book_genre b)) (books example_store) \<and>
   genre_delete_post example_env (example_request 1 [] 7) example_store
     = (Redirect ''/catalog/genres'', example_store)"
proof -
  let ?r = "example_request 1 [] 7"
  have 1: "fault example_env = None" by (simp add: example_env_def)
  have 2: "\<forall>g\<in>set (genres example_store). genre_id g \<noteq> body_genreid ?r"
    by (simp add: example_store_def example_request_def)
  have 3: "\<forall>b\<in>set (books example_store). body_genreid ?r \<notin> set (book_genre b)"
    by (simp add: example_store_def example_request_def)
  have 4: "list_all (\<lambda>g. genre_id g \<noteq> 7) (genres example_store)"
    "list_all (\<lambda>b. 7 \<notin> set (book_genre b)) (books example_store)"
    by (simp_all add: example_store_def)
  show ?thesis
    using genre_delete_post_absent [OF 1 2 3] 1 4 by simp
qed

text \<open>
  Where books still reference the id of a genre that is gone, deleting that id is not
  without effect: no genre has id 1 in \<open>orphan_store\<close>, and the handler deletes the two
  books that reference it and their three copies.
\<close>

theorem genre_delete_post_absent_counterexample:
  "fault example_env = None \<and>
   Genre_findById example_env orphan_store 1 = Inr None \<and>
   genre_delete_post example_env (example_request 1 [] 1) orphan_store =
     (Redirect ''/catalog/genres'',
      \<lparr>genres = [\<lparr>genre_id = 2, genre_name = ''Fantasy''\<rparr>,
                 \<lparr>genre_id = 3, genre_name = ''Poetry''\<rparr>],
       books = [\<lparr>book_id = 11, book_title = ''The Hobbit'',
                 book_summary = ''There and back'', book_genre = [2]\<rparr>],
       bookinstances = [\<lparr>bookinstance_id = 21, bookinstance_book = 11\<rparr>]\<rparr>) \<and>
   length (books orphan_store) = 3 \<and> length (bookinstances orphan_store) = 4 \<and>
   snd (genre_delete_post example_env (example_request 1 [] 1) orphan_store) \<noteq> orphan_store"
  by (simp add: genre_delete_post_def Book_find_genre_def Genre_findByIdAndDelete_def
      Genre_findById_def Book_deleteMany_genre_in_def Bookinstance_deleteMany_book_in_def
      handler_defs example_env_def example_request_def orphan_store_def example_store_def)

text \<open>
  Claim C9. What the delete form (POST) does and answers depends on the request through
  the body field \<open>genreid\<close> only: two requests that agree on it, in the same
  environment and on the same store, get the same response and leave the same store,
  whatever their path ids.
\<close>

theorem genre_delete_post_body_only:
  assumes "body_genreid req1 = body_genreid req2"
  shows "genre_delete_post E req1 s = genre_delete_post E req2 s"
  using assms by (simp add: genre_delete_post_def)

theorem genre_delete_post_body_only_witness:
  "params_id (example_request 2 [] 1) \<noteq> params_id (example_request 3 ''x'' 1) \<and>
   body_genreid (example_request 2 [] 1) = body_genreid (example_request 3 ''x'' 1) \<and>
   genre_delete_post example_env (example_request 2 [] 1) example_store =
   genre_delete_post example_env (example_request 3 ''x'' 1) example_store"
proof -
  have 1: "body_genreid (example_request 2 [] 1) = body_genreid (example_request 3 ''x'' 1)"
    by (simp add: example_request_def)
  have 2: "params_id (example_request 2 [] 1) \<noteq> params_id (example_request 3 ''x'' 1)"
    by (simp add: example_request_def)
  show ?thesis
    using genre_delete_post_body_only [OF 1, of example_env example_store] 1 2 by simp
qed

section \<open>The create form\<close>

text \<open>
  Claim C2. A submitted name whose trimmed length is at least 3 and which, trimmed and
  escaped, is the name of no stored genre: the create form (POST) appends one genre
  with the trimmed, escaped name and the generated id, changes nothing else in the
  store, and redirects to the url of the new genre. The store is reachable, no earlier
  validation error stands in the request, the schema validators accept the name and
  the generated id is new.
\<close>

theorem genre_create_post_new:
  assumes "fault E = None" and "validation_errors req = []"
    and "3 \<le> length (trim (body_name req))"
    and "\<forall>g\<in>set (genres s). genre_name g \<noteq> escape (trim (body_name req))"
    and "genre_name_valid E (escape (trim (body_name req)))"
    and "new_oid E \<notin> set (map genre_id (genres s))"
  shows "genre_create_post E req s =
     (Redirect (genre_url E (new_oid E)),
      s\<lparr>genres := genres s @
           [\<lparr>genre_id = new_oid E, genre_name = escape (trim (body_name req))\<rparr>]\<rparr>)"
proof -
  have "find (\<lambda>g. genre_name g = escape (trim (body_name req))) (genres s) = None"
    using assms(4) by (simp add: find_None_iff)
  then show ?thesis
    using assms(1,2,3,5,6)
    by (simp add: genre_create_post_def genre_create_post_handler_def name_chain_def
        isLength_min_def Genre_findOne_name_def Genre_save_def handler_defs)
qed

theorem genre_create_post_new_witness:
  "fault example_env = None \<and> validation_errors (example_request 0 '' Fiction '' 0) = [] \<and>
   trim (body_name (example_request 0 '' Fiction '' 0)) = ''Fiction'' \<and>
   genre_create_post example_env (example_request 0 '' Fiction '' 0) example_store =
     (Redirect ''/catalog/genre/9'',
      example_store\<lparr>genres := genres example_store @
        [\<lparr>genre_id = 9, genre_name = ''Fiction''\<rparr>]\<rparr>)"
proof -
  let ?r = "example_request 0 '' Fiction '' 0"
  have t: "trim (body_name ?r) = ''Fiction''"
    by (simp add: example_request_def trim_def is_space_def)
  have e: "escape ''Fiction'' = ''Fiction''"
    by (simp add: escape_def escape_char_def)
  have 1: "fault example_env = None" by (simp add: example_env_def)
  have 2: "validation_errors ?r = []" by (simp add: example_request_def)
  have 3: "3 \<le> length (trim (body_name ?r))" by (simp add: t)
  have 4: "\<forall>g\<in>set (genres example_store). genre_name g \<noteq> escape (trim (body_name ?r))"
    by (simp add: t e example_store_def)
  have 5: "genre_name_valid example_env (escape (trim (body_name ?r)))"
    by (simp add: t e example_env_def)
  have 6: "new_oid example_env \<notin> set (map genre_id (genres example_store))"
    by (simp add: example_env_def example_store_def)
  have u: "genre_url example_env (new_oid example_env) = ''/catalog/genre/9''"
    by (simp add: example_env_def decimal.simps)
  have n: "new_oid example_env = 9" by (simp add: example_env_def)
  show ?thesis
    using genre_create_post_new [OF 1 2 3 4 5 6] 1 2 t e u n by simp
qed

text \<open>
  Claim C3, as the handler has it. A submitted name whose trimmed length is at least 3
  and which, trimmed and escaped, is the name of a stored genre: the create form
  (POST) inserts nothing, leaves the store as it is, and redirects to the url of the
  stored genre of that name (the first, should several have it). So the store after a
  second submission of the name is the store after the first. The store is reachable
  and no earlier validation error stands in the request.
\<close>

theorem genre_create_post_existing:
  assumes "fault E = None" and "validation_errors req = []"
    and "3 \<le> length (trim (body_name req))"
    and "g \<in> set (genres s)" and "genre_name g = escape (trim (body_name req))"
  shows "\<exists>g'. find (\<lambda>g'. genre_name g' = escape (trim (body_name req))) (genres s) = Some g' \<and>
           g' \<in> set (genres s) \<and> genre_name g' = escape (trim (body_name req)) \<and>
           genre_create_post E req s = (Redirect (genre_url E (genre_id g')), s)"
proof -
  from assms(4,5) obtain g' where
    f: "find (\<lambda>g'. genre_name g' = escape (trim (body_name req))) (genres s) = Some g'"
    by (cases "find (\<lambda>g'. genre_name g' = escape (trim (body_name req))) (genres s)")
       (auto simp: find_None_iff)
  then have m: "g' \<in> set (genres s)" "genre_name g' = escape (trim (body_name req))"
    by (auto simp: find_Some_iff)
  have "genre_create_post E req s = (Redirect (genre_url E (genre_id g')), s)"
    using f assms(1,2,3)
    by (simp add: genre_create_post_def genre_create_post_handler_def name_chain_def
        isLength_min_def Genre_findOne_name_def handler_defs)
  with f m show ?thesis by blast
qed

theorem genre_create_post_existing_witness:
  "fault example_env = None \<and> validation_errors (example_request 0 ''Poetry  '' 0) = [] \<and>
   trim (body_name (example_request 0 ''Poetry  '' 0)) = ''Poetry'' \<and>
   \<lparr>genre_id = 3, genre_name = ''Poetry''\<rparr> \<in> set (genres example_store) \<and>
   genre_create_post example_env (example_request 0 ''Poetry  '' 0) example_store =
     (Redirect ''/catalog/genre/3'', example_store)"
proof -
  let ?r = "example_request 0 ''Poetry  '' 0"
  let ?g = "\<lparr>genre_id = 3, genre_name = ''Poetry''\<rparr>"
  have t: "trim (body_name ?r) = ''Poetry''"
    by (simp add: example_request_def trim_def is_space_def)
  have e: "escape ''Poetry'' = ''Poetry''"
    by (simp add: escape_def escape_char_def)
  have 1: "fault example_env = None" by (simp add: example_env_def)
  have 2: "validation_errors ?r = []" by (simp add: example_request_def)
  have 3: "3 \<le> length (trim (body_name ?r))" by (simp add: t)
  have 4: "?g \<in> set (genres example_store)" by (simp add: example_store_def)
  have 5: "genre_name ?g = escape (trim (body_name ?r))" by (simp add: t e)
  have f: "find (\<lambda>g'. genre_name g' = ''Poetry'') (genres example_store) = Some ?g"
    by (simp add: example_store_def)
  have u: "genre_url example_env 3 = ''/catalog/genre/3''"
    by (simp add: example_env_def decimal.simps)
  show ?thesis
    using genre_create_post_existing [OF 1 2 3 4 5] 1 2 4 t e f u by auto
qed

text \<open>
  The length is checked on the trimmed name, before it is escaped. Renaming genre 2 to
  \<open>&lt;\<close> through the update form gives \<open>escaped_store\<close>; the name \<open><\<close>, trimmed
  and escaped, is then the name of a stored genre, and the create form answers it with
  the form and the length error, not with a redirect.
\<close>

theorem genre_create_post_existing_counterexample:
  "genre_update_post example_env (example_request 2 ''&lt;'' 0) example_store =
     (Redirect ''/catalog/genre/2'', escaped_store) \<and>
   escape (trim ''<'') = ''&lt;'' \<and>
   \<lparr>genre_id = 2, genre_name = ''&lt;''\<rparr> \<in> set (genres escaped_store) \<and>
   genre_create_post example_env (example_request 0 ''<'' 0) escaped_store =
     (Render (Genre_form_view ''Create Genre'' (Some \<lparr>genre_id = 9, genre_name = ''&lt;''\<rparr>)
        (Some [\<lparr>ve_path = ''name'',
                ve_msg = ''Genre name must contain at least 3 characters''\<rparr>])),
      escaped_store)"
proof -
  have t: "trim ''<'' = ''<''" by (simp add: trim_def is_space_def)
  have e: "escape ''<'' = ''&lt;''" by (simp add: escape_def escape_char_def)
  have u: "genre_update_post example_env (example_request 2 ''&lt;'' 0) example_store =
     (Redirect ''/catalog/genre/2'', escaped_store)"
    by (simp add: genre_update_post_def Genre_findOneAndUpdate_def handler_defs example_env_def
        example_request_def example_store_def escaped_store_def decimal.simps)
  have m: "\<lparr>genre_id = 2, genre_name = ''&lt;''\<rparr> \<in> set (genres escaped_store)"
    by (simp add: escaped_store_def)
  have c: "genre_create_post example_env (example_request 0 ''<'' 0) escaped_store =
     (Render (Genre_form_view ''Create Genre'' (Some \<lparr>genre_id = 9, genre_name = ''&lt;''\<rparr>)
        (Some [\<lparr>ve_path = ''name'',
                ve_msg = ''Genre name must contain at least 3 characters''\<rparr>])),
      escaped_store)"
    by (simp add: genre_create_post_def genre_create_post_handler_def name_chain_def
        isLength_min_def handler_defs example_env_def example_request_def t e)
  from t e u m c show ?thesis by simp
qed

text \<open>
  Claim C4. A submitted name whose trimmed length is below 3: the create form (POST)
  leaves the store as it is, whether or not the store is reachable, and renders the
  form again with the trimmed, escaped value and the length error, with status 200;
  nothing goes to the error handler.
\<close>

theorem genre_create_post_invalid:
  assumes "length (trim (body_name req)) < 3"
  shows "genre_create_post E req s =
     (Render (Genre_form_view ''Create Genre''
        (Some \<lparr>genre_id = new_oid E, genre_name = escape (trim (body_name req))\<rparr>)
        (Some (validation_errors req @
           [\<lparr>ve_path = ''name'',
             ve_msg = ''Genre name must contain at least 3 characters''\<rparr>]))),
      s) \<and>
     status_code (fst (genre_create_post E req s)) = Some 200"
  using assms
  by (simp add: genre_create_post_def genre_create_post_handler_def name_chain_def
      isLength_min_def handler_defs)

theorem genre_create_post_invalid_witness:
  "length (trim (body_name (example_request 0 '' Fi '' 0))) = 2 \<and>
   genre_create_post failing_env (example_request 0 '' Fi '' 0) example_store =
     (Render (Genre_form_view ''Create Genre'' (Some \<lparr>genre_id = 9, genre_name = ''Fi''\<rparr>)
        (Some [\<lparr>ve_path = ''name'',
                ve_msg = ''Genre name must contain at least 3 characters''\<rparr>])),
      example_store) \<and>
   status_code (fst (genre_create_post failing_env (example_request 0 '' Fi '' 0) example_store))
     = Some 200"
proof -
  let ?r = "example_request 0 '' Fi '' 0"
  have t: "trim (body_name ?r) = ''Fi''"
    by (simp add: example_request_def trim_def is_space_def)
  have e: "escape ''Fi'' = ''Fi''"
    by (simp add: escape_def escape_char_def)
  have l: "length (trim (body_name ?r)) < 3" by (simp add: t)
  have n: "new_oid failing_env = 9" "validation_errors ?r = []"
    by (simp_all add: failing_env_def example_env_def example_request_def)
  show ?thesis
    using genre_create_post_invalid [OF l, of failing_env example_store] t e n by simp
qed

section \<open>The pages of one genre\<close>

text \<open>
  Claim C5. For a genre id that no stored genre has, on a reachable store, the detail
  page, the delete form (GET) and the update form (GET) each pass the error
  \<open>Genre not found\<close> with status 404 to the error handler and render no view.
\<close>

theorem genre_not_found:
  assumes "fault E = None" and "\<forall>g\<in>set (genres s). genre_id g \<noteq> params_id req"
  shows "genre_detail E req s = (Next (Error ''Genre not found'' (Some 404)), s) \<and>
         genre_delete_get E req s = (Next (Error ''Genre not found'' (Some 404)), s) \<and>
         genre_update_get E req s = (Next (Error ''Genre not found'' (Some 404)), s) \<and>
         err_status (Error ''Genre not found'' (Some 404)) = Some 404"
proof -
  have "find (\<lambda>g. genre_id g = params_id req) (genres s) = None"
    using assms(2) by (simp add: find_None_iff)
  then show ?thesis
    using assms(1)
    by (simp add: genre_detail_def genre_delete_get_def genre_update_get_def Genre_findById_def
        Book_find_genre_def handler_defs)
qed

theorem genre_not_found_witness:
  "fault example_env = None \<and> list_all (\<lambda>g. genre_id g \<noteq> 7) (genres example_store) \<and>
   genre_detail example_env (example_request 7 [] 0) example_store
     = (Next (Error ''Genre not found'' (Some 404)), example_store) \<and>
   genre_delete_get example_env (example_request 7 [] 0) example_store
     = (Next (Error ''Genre not found'' (Some 404)), example_store) \<and>
   genre_update_get example_env (example_request 7 [] 0) example_store
     = (Next (Error ''Genre not found'' (Some 404)), example_store)"
proof -
  have 1: "fault example_env = None" by (simp add: example_env_def)
  have 2: "\<forall>g\<in>set (genres example_store). genre_id g \<noteq> params_id (example_request 7 [] 0)"
    by (simp add: example_store_def example_request_def)
  have 3: "list_all (\<lambda>g. genre_id g \<noteq> 7) (genres example_store)"
    by (simp add: example_store_def)
  show ?thesis
    using genre_not_found [OF 1 2] 1 3 by simp
qed

section \<open>The genre list\<close>

text \<open>
  Claim C8. On every store the list handler, when the store is reachable, renders the
  list view with all the genres (the same documents, as many times), ordered by name
  ascending; when the store call rejects, the handler passes that error to the error
  handler and renders nothing.
\<close>

theorem genre_list_sorted:
  "(fault E = None \<longrightarrow>
      (\<exists>l. genre_list E req s = (Render (Genre_list_view ''Genre List'' l), s) \<and>
           sorted (map genre_name l) \<and> mset l = mset (genres s))) \<and>
   (\<forall>e. fault E = Some e \<longrightarrow> genre_list E req s = (Next e, s))"
  by (simp add: genre_list_def Genre_find_sort_name_def query_def)

theorem genre_list_sorted_witness:
  "fault example_env = None \<and>
   genre_list example_env (example_request 0 [] 0) example_store =
     (Render (Genre_list_view ''Genre List''
        [\<lparr>genre_id = 2, genre_name = ''Fantasy''\<rparr>,
         \<lparr>genre_id = 3, genre_name = ''Poetry''\<rparr>,
         \<lparr>genre_id = 1, genre_name = ''Science Fiction''\<rparr>]), example_store) \<and>
   fault failing_env = Some (StoreError ''ECONNREFUSED'') \<and>
   genre_list failing_env (example_request 0 [] 0) example_store =
     (Next (StoreError ''ECONNREFUSED''), example_store)"
proof -
  let ?r = "example_request 0 [] 0"
  have 1: "fault example_env = None" by (simp add: example_env_def)
  have 2: "fault failing_env = Some (StoreError ''ECONNREFUSED'')"
    by (simp add: failing_env_def)
  have o: "sort_key genre_name (genres example_store) =
        [\<lparr>genre_id = 2, genre_name = ''Fantasy''\<rparr>,
         \<lparr>genre_id = 3, genre_name = ''Poetry''\<rparr>,
         \<lparr>genre_id = 1, genre_name = ''Science Fiction''\<rparr>]"
    by (simp add: example_store_def less_eq_char_def less_char_def)
  have a: "genre_list example_env ?r example_store =
     (Render (Genre_list_view ''Genre List'' (sort_key genre_name (genres example_store))),
      example_store)"
    using genre_list_sorted [of example_env ?r example_store] 1
    by (simp add: genre_list_def Genre_find_sort_name_def query_def)
  have b: "genre_list failing_env ?r example_store =
     (Next (StoreError ''ECONNREFUSED''), example_store)"
    using genre_list_sorted [of failing_env ?r example_store] 2 by simp
  from 1 2 a b o show ?thesis by simp
qed

section \<open>The update form\<close>

text \<open>
  Claim C7. An update (POST) with no validation error, neither in the request nor from
  the schema validators the update runs, for an id that no stored genre has, on a
  reachable store: the update finds nothing, reading \<open>url\<close> of its \<open>null\<close> result
  throws, and that error, which carries no status, goes to the error handler; it is
  not the \<open>Genre not found\<close> error with status 404. The store is left as it is.
\<close>

theorem genre_update_post_vanished:
  assumes "fault E = None" and "validation_errors req = []"
    and "genre_name_valid E (body_name req)"
    and "\<forall>g\<in>set (genres s). genre_id g \<noteq> params_id req"
  shows "genre_update_post E req s = (Next (TypeError_null ''url''), s) \<and>
         err_status (TypeError_null ''url'') = None \<and>
         TypeError_null ''url'' \<noteq> Error ''Genre not found'' (Some 404)"
proof -
  have f: "find (\<lambda>g. genre_id g = params_id req) (genres s) = None"
    using assms(4) by (simp add: find_None_iff)
  have u: "update_first (\<lambda>g. genre_id g = params_id req)
             (\<lambda>g. g\<lparr>genre_id := params_id req, genre_name := body_name req\<rparr>) (genres s)
           = genres s"
    using assms(4) by (simp add: update_first_absent)
  show ?thesis
    using assms(1,2,3) f u
    by (simp add: genre_update_post_def Genre_findOneAndUpdate_def handler_defs)
qed

theorem genre_update_post_vanished_witness:
  "fault example_env = None \<and> validation_errors (example_request 7 ''Drama'' 0) = [] \<and>
   genre_name_valid example_env ''Drama'' \<and>
   list_all (\<lambda>g. genre_id g \<noteq> 7) (genres example_store) \<and>
   genre_update_post example_env (example_request 7 ''Drama'' 0) example_store
     = (Next (TypeError_null ''url''), example_store)"
proof -
  let ?r = "example_request 7 ''Drama'' 0"
  have 1: "fault example_env = None" by (simp add: example_env_def)
  have 2: "validation_errors ?r = []" by (simp add: example_request_def)
  have 3: "genre_name_valid example_env (body_name ?r)"
    by (simp add: example_env_def example_request_def)
  have 4: "\<forall>g\<in>set (genres example_store). genre_id g \<noteq> params_id ?r"
    by (simp add: example_store_def example_request_def)
  have 5: "genre_name_valid example_env ''Drama''"
    "list_all (\<lambda>g. genre_id g \<noteq> 7) (genres example_store)"
    by (simp_all add: example_env_def example_store_def)
  show ?thesis
    using genre_update_post_vanished [OF 1 2 3 4] 1 2 5 by simp
qed

text \<open>
  Claim C10. Every update (POST) leaves the books and the book instances as they are
  and the genres in their places, each with the id it had, and each genre whose id is
  not the path id unchanged. With a validation error in the request the handler calls
  the store not at all: reachable or not, the store is unchanged and the form is
  rendered again.
\<close>

theorem genre_update_post_frame:
  "books (snd (genre_update_post E req s)) = books s \<and>
   bookinstances (snd (genre_update_post E req s)) = bookinstances s \<and>
   list_all2 (\<lambda>g g'. genre_id g' = genre_id g \<and> (genre_id g \<noteq> params_id req \<longrightarrow> g' = g))
     (genres s) (genres (snd (genre_update_post E req s))) \<and>
   (validation_errors req \<noteq> [] \<longrightarrow>
      genre_update_post E req s =
        (Render (Genre_form_view ''Update Genre''
           (Some \<lparr>genre_id = params_id req, genre_name = body_name req\<rparr>)
           (Some (validation_errors req))), s))"
proof -
  let ?P = "\<lambda>g. genre_id g = params_id req"
  let ?f = "\<lambda>g. g\<lparr>genre_id := params_id req, genre_name := body_name req\<rparr>"
  let ?R = "\<lambda>g g'. genre_id g' = genre_id g \<and> (genre_id g \<noteq> params_id req \<longrightarrow> g' = g)"
  have fr: "list_all2 ?R (genres s) (update_first ?P ?f (genres s))"
    by (rule list_all2_mono [OF update_first_frame [of ?P ?f "genres s"]]) auto
  have same: "list_all2 ?R (genres s) (genres s)"
    by (simp add: list.rel_refl)
  show ?thesis
    using fr same
    by (cases "find ?P (genres s)")
       (simp_all add: genre_update_post_def Genre_findOneAndUpdate_def asyncHandler_def Let_def
          split: option.split)
qed

text \<open>
  A rejected update on a failing store shows the form and touches nothing; an accepted
  update of genre 2 renames that genre only.
\<close>

theorem genre_update_post_frame_witness:
  "validation_errors rejected_request \<noteq> [] \<and>
   genre_update_post failing_env rejected_request example_store =
     (Render (Genre_form_view ''Update Genre'' (Some \<lparr>genre_id = 2, genre_name = ''Ep''\<rparr>)
        (Some [\<lparr>ve_path = ''name'', ve_msg = ''Name must be specified''\<rparr>])), example_store) \<and>
   genre_update_post example_env (example_request 2 ''Epic Fantasy'' 0) example_store =
     (Redirect ''/catalog/genre/2'',
      example_store\<lparr>genres :=
        [\<lparr>genre_id = 1, genre_name = ''Science Fiction''\<rparr>,
         \<lparr>genre_id = 2, genre_name = ''Epic Fantasy''\<rparr>,
         \<lparr>genre_id = 3, genre_name = ''Poetry''\<rparr>]\<rparr>)"
proof -
  have 1: "validation_errors rejected_request \<noteq> []" by (simp add: rejected_request_def)
  have a: "genre_update_post failing_env rejected_request example_store =
     (Render (Genre_form_view ''Update Genre'' (Some \<lparr>genre_id = 2, genre_name = ''Ep''\<rparr>)
        (Some [\<lparr>ve_path = ''name'', ve_msg = ''Name must be specified''\<rparr>])), example_store)"
    using genre_update_post_frame [of failing_env rejected_request example_store] 1
    by (simp add: rejected_request_def)
  have b: "genre_update_post example_env (example_request 2 ''Epic Fantasy'' 0) example_store =
     (Redirect ''/catalog/genre/2'',
      example_store\<lparr>genres :=
        [\<lparr>genre_id = 1, genre_name = ''Science Fiction''\<rparr>,
         \<lparr>genre_id = 2, genre_name = ''Epic Fantasy''\<rparr>,
         \<lparr>genre_id = 3, genre_name = ''Poetry''\<rparr>]\<rparr>)"
    by (simp add: genre_update_post_def Genre_findOneAndUpdate_def handler_defs example_env_def
        example_request_def example_store_def decimal.simps)
  from 1 a b show ?thesis by simp
qed

end
